theory Spec2Isabelle
  imports Complex_Main "HOL-Library.AList"
begin

section \<open>Data model of generate_tax_brackets.py\<close>

text \<open>
  A Python number that reaches the bracket code is either a finite number or the float
  \<open>inf\<close>. Finite numbers are modelled by exact rationals; \<open>PosInf\<close> is
  \<open>float('inf')\<close>. NaN and negative infinity are not modelled: the provider's
  bounds are finite numbers or \<open>inf\<close>.
\<close>

datatype number = Fin rat | PosInf

text \<open>
  A value stored under the key \<open>"max"\<close>: a number, or a string. Python's \<open>==\<close>
  between a number and a string is false, as is the equality of this datatype.
\<close>

datatype jval = Num number | Str string

text \<open>The dictionary \<open>{"min": .., "max": .., "rate": ..}\<close> built for one bracket.\<close>

record bracket =
  bracket_min :: number
  bracket_max :: jval
  bracket_rate :: rat

text \<open>
  An object of a canatax rate class: its attribute \<open>brackets\<close> (the field
  \<open>obj_brackets\<close>) is a list of tuples \<open>(rate_percentage, max_amount)\<close>.
\<close>

record tax_rate_obj =
  obj_brackets :: "(rat \<times> number) list"

section \<open>format_brackets\<close>

text \<open>
  The \<open>for i, (rate_pct, max_val) in enumerate(brackets)\<close> loop: \<open>i\<close> is the
  index, the third argument is what is left to iterate, the last one is the list
  \<open>formatted\<close>. The read \<open>brackets[i-1][1]\<close> happens only for \<open>i > 0\<close>, where
  \<open>i - 1\<close> is the index of an element already visited, so it is always in range.
\<close>

fun format_loop ::
  "(rat \<times> number) list \<Rightarrow> nat \<Rightarrow> (rat \<times> number) list \<Rightarrow> bracket list \<Rightarrow> bracket list"
where
  "format_loop brackets i [] formatted = formatted"
| "format_loop brackets i ((rate_pct, max_val) # rest) formatted =
     (let min_val = (if i = 0 then Fin 0 else snd (brackets ! (i - 1)));
          rate_decimal = rate_pct / 100;
          max_val_serializable = (if max_val = PosInf then Str ''Infinity'' else Num max_val)
      in format_loop brackets (Suc i) rest
           (formatted @ [\<lparr>bracket_min = min_val,
                           bracket_max = max_val_serializable,
                           bracket_rate = rate_decimal\<rparr>]))"

definition format_brackets :: "tax_rate_obj \<Rightarrow> bracket list" where
  "format_brackets tax_rate_obj = (let brackets = obj_brackets tax_rate_obj in format_loop brackets 0 brackets [])"

text \<open>Strict order on upper bounds: every finite number is below infinity.\<close>

fun number_less :: "number \<Rightarrow> number \<Rightarrow> bool" where
  "number_less (Fin a) (Fin b) = (a < b)"
| "number_less (Fin a) PosInf = True"
| "number_less PosInf b = False"

section \<open>The tables\<close>

text \<open>
  Python dictionaries keep insertion order, and the script iterates
  \<open>PROVINCE_NAMES.keys()\<close>, so the dictionaries are association lists; \<open>map_of\<close>
  is the lookup.
\<close>

definition PROVINCE_NAMES :: "(string \<times> string) list" where
  "PROVINCE_NAMES =
    [(''AB'', ''Alberta''),
     (''BC'', ''British Columbia''),
     (''MB'', ''Manitoba''),
     (''NB'', ''New Brunswick''),
     (''NL'', ''Newfoundland and Labrador''),
     (''NS'', ''Nova Scotia''),
     (''NT'', ''Northwest Territories''),
     (''NU'', ''Nunavut''),
     (''ON'', ''Ontario''),
     (''PE'', ''Prince Edward Island''),
     (''QC'', ''Quebec''),
     (''SK'', ''Saskatchewan''),
     (''YT'', ''Yukon'')]"

definition PROVINCE_TO_CLASS :: "(string \<times> string) list" where
  "PROVINCE_TO_CLASS =
    [(''AB'', ''AlbertaIncomeTaxRate''),
     (''BC'', ''BritishColumbiaIncomeTaxRate''),
     (''MB'', ''ManitobaIncomeTaxRate''),
     (''NB'', ''NewBrunswickIncomeTaxRate''),
     (''NL'', ''NewfoundlandIncomeTaxRate''),
     (''NS'', ''NovaScotiaIncomeTaxRate''),
     (''NT'', ''NorthwestTerritoriesIncomeTaxRate''),
     (''NU'', ''NunavutIncomeTaxRate''),
     (''ON'', ''OntarioIncomeTaxRate''),
     (''PE'', ''PEIIncomeTaxRate''),
     (''QC'', ''QuebecIncomeTaxRate''),
     (''SK'', ''SaskatchewanIncomeTaxRate''),
     (''YT'', ''YukonIncomeTaxRate'')]"

section \<open>The rate provider\<close>

text \<open>
  An exception raised by the provider, with the text that \<open>str(e)\<close> gives. A rate
  class is called with no arguments; the call either raises or returns a rate object, and
  that outcome is what the model stores for the class.
\<close>

datatype exn = Exception string

type_synonym tax_rate_class = "exn + tax_rate_obj"

text \<open>The module \<open>canatax.rates.income.tax_rates.rates_2025\<close> with its fourteen classes.\<close>

record rates_module =
  FederalIncomeTaxRate :: tax_rate_class
  AlbertaIncomeTaxRate :: tax_rate_class
  BritishColumbiaIncomeTaxRate :: tax_rate_class
  ManitobaIncomeTaxRate :: tax_rate_class
  NewBrunswickIncomeTaxRate :: tax_rate_class
  NewfoundlandIncomeTaxRate :: tax_rate_class
  NovaScotiaIncomeTaxRate :: tax_rate_class
  NorthwestTerritoriesIncomeTaxRate :: tax_rate_class
  NunavutIncomeTaxRate :: tax_rate_class
  OntarioIncomeTaxRate :: tax_rate_class
  PEIIncomeTaxRate :: tax_rate_class
  QuebecIncomeTaxRate :: tax_rate_class
  SaskatchewanIncomeTaxRate :: tax_rate_class
  YukonIncomeTaxRate :: tax_rate_class

text \<open>\<open>str(KeyError(k))\<close> is the key between apostrophes.\<close>

definition KeyError :: "string \<Rightarrow> exn" where
  "KeyError k = Exception ([CHR 0x27] @ k @ [CHR 0x27])"

fun str_exn :: "exn \<Rightarrow> string" where
  "str_exn (Exception msg) = msg"

section \<open>Formatting integers\<close>

definition digit_char :: "nat \<Rightarrow> char" where
  "digit_char d = ''0123456789'' ! d"

fun str_nat :: "nat \<Rightarrow> string" where
  "str_nat n = (if n < 10 then [digit_char n] else str_nat (n div 10) @ [digit_char (n mod 10)])"

declare str_nat.simps [simp del]

definition str_int :: "int \<Rightarrow> string" where
  "str_int i = (if i < 0 then CHR ''-'' # str_nat (nat (- i)) else str_nat (nat i))"

section \<open>Fetching the brackets of one jurisdiction\<close>

text \<open>
  Every function that prints returns the printed lines with its value. The
  \<open>try ... except Exception\<close> of the source is the case distinction on the outcome of
  the lookup and of the call; Python's \<open>None\<close> is \<open>None\<close>.
\<close>

definition get_federal_brackets ::
  "(string \<times> tax_rate_class) list \<Rightarrow> string list \<times> bracket list option"
where
  "get_federal_brackets tax_rate_classes =
     (case (case map_of tax_rate_classes ''FederalIncomeTaxRate'' of
              None \<Rightarrow> Inl (KeyError ''FederalIncomeTaxRate'')
            | Some cls \<Rightarrow> cls) of
        Inr fed \<Rightarrow> ([], Some (format_brackets fed))
      | Inl e \<Rightarrow> ([''Error fetching federal brackets: '' @ str_exn e], None))"

text \<open>The dictionary \<open>{"name": .., "brackets": ..}\<close> of one province.\<close>

record province =
  province_name :: string
  province_brackets :: "bracket list"

definition get_provincial_brackets ::
  "(string \<times> tax_rate_class) list \<Rightarrow> string \<Rightarrow> string list \<times> province option"
where
  "get_provincial_brackets tax_rate_classes province_code =
     (let class_name = map_of PROVINCE_TO_CLASS province_code in
      if class_name = None \<or> class_name = Some [] \<or>
         the class_name \<notin> set (map fst tax_rate_classes)
      then ([''No tax rate class found for '' @ province_code], None)
      else
        (case the (map_of tax_rate_classes (the class_name)) of
           Inr prov_obj \<Rightarrow>
             ([], Some \<lparr>province_name =
                          (case map_of PROVINCE_NAMES province_code of
                             Some n \<Rightarrow> n | None \<Rightarrow> province_code),
                        province_brackets = format_brackets prov_obj\<rparr>)
         | Inl e \<Rightarrow>
             ([''Error fetching brackets for '' @ province_code @ '': '' @ str_exn e], None)))"

section \<open>generate_tax_data\<close>

record tax_data =
  tax_year :: int
  tax_federal :: "bracket list"
  tax_provincial :: "(string \<times> province) list"

text \<open>The dictionary \<open>tax_rate_classes\<close> that \<open>generate_tax_data\<close> builds from the module.\<close>

definition tax_rate_classes_of :: "rates_module \<Rightarrow> (string \<times> tax_rate_class) list" where
  "tax_rate_classes_of rates_2025 =
    [(''FederalIncomeTaxRate'', FederalIncomeTaxRate rates_2025),
     (''AlbertaIncomeTaxRate'', AlbertaIncomeTaxRate rates_2025),
     (''BritishColumbiaIncomeTaxRate'', BritishColumbiaIncomeTaxRate rates_2025),
     (''ManitobaIncomeTaxRate'', ManitobaIncomeTaxRate rates_2025),
     (''NewBrunswickIncomeTaxRate'', NewBrunswickIncomeTaxRate rates_2025),
     (''NewfoundlandIncomeTaxRate'', NewfoundlandIncomeTaxRate rates_2025),
     (''NovaScotiaIncomeTaxRate'', NovaScotiaIncomeTaxRate rates_2025),
     (''NorthwestTerritoriesIncomeTaxRate'', NorthwestTerritoriesIncomeTaxRate rates_2025),
     (''NunavutIncomeTaxRate'', NunavutIncomeTaxRate rates_2025),
     (''OntarioIncomeTaxRate'', OntarioIncomeTaxRate rates_2025),
     (''PEIIncomeTaxRate'', PEIIncomeTaxRate rates_2025),
     (''QuebecIncomeTaxRate'', QuebecIncomeTaxRate rates_2025),
     (''SaskatchewanIncomeTaxRate'', SaskatchewanIncomeTaxRate rates_2025),
     (''YukonIncomeTaxRate'', YukonIncomeTaxRate rates_2025)]"

text \<open>
  The loop \<open>for province_code in PROVINCE_NAMES.keys()\<close>; the state is the printed lines
  and the dictionary \<open>provincial\<close>. \<open>if brackets:\<close> tests a value that is \<open>None\<close> or a
  dictionary with two keys, so it is the test for \<open>None\<close>. \<open>AList.update\<close> is the
  assignment \<open>provincial[province_code] = brackets\<close>: a new key goes to the end.
\<close>

fun provincial_loop ::
  "(string \<times> tax_rate_class) list \<Rightarrow> string list \<Rightarrow>
   string list \<times> (string \<times> province) list \<Rightarrow> string list \<times> (string \<times> province) list"
where
  "provincial_loop tax_rate_classes [] st = st"
| "provincial_loop tax_rate_classes (province_code # rest) (out, provincial) =
     (let out1 = out @ [''Fetching brackets for '' @ province_code @ ''...''];
          (out2, brackets) = get_provincial_brackets tax_rate_classes province_code
      in case brackets of
           Some b \<Rightarrow>
             provincial_loop tax_rate_classes rest
               (out1 @ out2, AList.update province_code b provincial)
         | None \<Rightarrow>
             provincial_loop tax_rate_classes rest
               (out1 @ out2 @ [''Failed to get brackets for '' @ province_code], provincial))"

text \<open>
  The argument is the outcome of the import: \<open>None\<close> is \<open>ImportError\<close>. The result is
  the printed lines and either \<open>Inl code\<close> for \<open>sys.exit(code)\<close> or the document.
\<close>

definition generate_tax_data :: "rates_module option \<Rightarrow> string list \<times> (int + tax_data)" where
  "generate_tax_data imported =
     (case imported of
        None \<Rightarrow>
          ([''Error: canatax package not installed.'',
            ''Please install it with '' @ [CHR 0x27] @ ''pip install canatax'' @ [CHR 0x27] @ ''.''],
           Inl 1)
      | Some rates_2025 \<Rightarrow>
          (let tax_rate_classes = tax_rate_classes_of rates_2025;
               year = 2025;
               out1 = [''Generating tax brackets for year: '' @ str_int year,
                       ''Fetching federal brackets...''];
               (out2, federal) = get_federal_brackets tax_rate_classes
           in case federal of
                None \<Rightarrow> (out1 @ out2 @ [''Failed to get federal brackets''], Inl 1)
              | Some fed \<Rightarrow>
                  (let (out3, provincial) =
                         provincial_loop tax_rate_classes (map fst PROVINCE_NAMES)
                           (out1 @ out2, [])
                   in (out3, Inr \<lparr>tax_year = year, tax_federal = fed,
                                   tax_provincial = provincial\<rparr>))))"

section \<open>Serialisation\<close>

text \<open>
  The values that \<open>json.dump\<close> receives, with the keys of every dictionary in insertion
  order.
\<close>

datatype json =
  JInt int
| JNumber number
| JString string
| JList "json list"
| JDict "(string \<times> json) list"

fun jval_json :: "jval \<Rightarrow> json" where
  "jval_json (Num n) = JNumber n"
| "jval_json (Str s) = JString s"

definition bracket_json :: "bracket \<Rightarrow> json" where
  "bracket_json b =
     JDict [(''min'', JNumber (bracket_min b)),
            (''max'', jval_json (bracket_max b)),
            (''rate'', JNumber (Fin (bracket_rate b)))]"

definition province_json :: "province \<Rightarrow> json" where
  "province_json p =
     JDict [(''name'', JString (province_name p)),
            (''brackets'', JList (map bracket_json (province_brackets p)))]"

definition tax_data_json :: "tax_data \<Rightarrow> json" where
  "tax_data_json d =
     JDict [(''year'', JInt (tax_year d)),
            (''federal'', JList (map bracket_json (tax_federal d))),
            (''provincial'', JDict (map (\<lambda>(code, p). (code, province_json p)) (tax_provincial d)))]"

text \<open>
  The text that \<open>json.dump(.., indent=2, ensure_ascii=False)\<close> writes. Strings are
  quoted, with the quote, the backslash and the control characters escaped. The text of
  a finite number is Python's own number formatting, the parameter \<open>repr\<close>; the float
  \<open>inf\<close> is written \<open>Infinity\<close>.
\<close>

definition hex_char :: "nat \<Rightarrow> char" where
  "hex_char d = ''0123456789abcdef'' ! d"

definition escape_char :: "char \<Rightarrow> string" where
  "escape_char c =
     (if c = CHR 0x22 then [CHR 0x5C, CHR 0x22]
      else if c = CHR 0x5C then [CHR 0x5C, CHR 0x5C]
      else if c = CHR 0x0A then [CHR 0x5C, CHR ''n'']
      else if c = CHR 0x0D then [CHR 0x5C, CHR ''r'']
      else if c = CHR 0x09 then [CHR 0x5C, CHR ''t'']
      else if c = CHR 0x0C then [CHR 0x5C, CHR ''f'']
      else if c = CHR 0x08 then [CHR 0x5C, CHR ''b'']
      else if (of_char c :: nat) < 32
        then [CHR 0x5C, CHR ''u'', CHR ''0'', CHR ''0'',
              hex_char ((of_char c :: nat) div 16), hex_char ((of_char c :: nat) mod 16)]
      else [c])"

definition encode_string :: "string \<Rightarrow> string" where
  "encode_string s = [CHR 0x22] @ concat (map escape_char s) @ [CHR 0x22]"

definition newline_indent :: "nat \<Rightarrow> string" where
  "newline_indent level = CHR 0x0A # replicate (2 * level) CHR '' ''"

fun join :: "string \<Rightarrow> string list \<Rightarrow> string" where
  "join sep [] = []"
| "join sep [x] = x"
| "join sep (x # y # ys) = x @ sep @ join sep (y # ys)"

fun encode :: "(rat \<Rightarrow> string) \<Rightarrow> nat \<Rightarrow> json \<Rightarrow> string" where
  "encode repr level (JInt i) = str_int i"
| "encode repr level (JNumber PosInf) = ''Infinity''"
| "encode repr level (JNumber (Fin q)) = repr q"
| "encode repr level (JString s) = encode_string s"
| "encode repr level (JList xs) =
     (if xs = [] then ''[]''
      else ''['' @ newline_indent (Suc level) @
           join ('','' @ newline_indent (Suc level)) (map (encode repr (Suc level)) xs) @
           newline_indent level @ '']'')"
| "encode repr level (JDict kvs) =
     (if kvs = [] then ''{}''
      else ''{'' @ newline_indent (Suc level) @
           join ('','' @ newline_indent (Suc level))
             (map (\<lambda>kv. encode_string (fst kv) @ '': '' @ encode repr (Suc level) (snd kv)) kvs) @
           newline_indent level @ ''}'')"

section \<open>main\<close>

text \<open>
  The run of the script without the \<open>--js\<close> flag. What it leaves behind: the lines
  printed, the file written (name and content), and the exit status.
\<close>

record run =
  run_stdout :: "string list"
  run_written :: "(string \<times> string) option"
  run_exit_status :: int

definition main :: "(rat \<Rightarrow> string) \<Rightarrow> rates_module option \<Rightarrow> run" where
  "main repr imported =
     (let out0 = [replicate 50 CHR ''='', ''RRSP Loan Maximizer - Tax Bracket Generator'',
                  replicate 50 CHR ''='', []];
          (out1, r) = generate_tax_data imported
      in case r of
           Inl code \<Rightarrow>
             \<lparr>run_stdout = out0 @ out1, run_written = None, run_exit_status = code\<rparr>
         | Inr tax_data \<Rightarrow>
             (let year = tax_year tax_data;
                  output_file = ''tax_brackets_'' @ str_int year @ ''.json''
              in \<lparr>run_stdout = out0 @ out1 @
                     [[], ''Writing to '' @ output_file @ ''...'',
                      ''Successfully generated '' @ output_file, [],
                      ''Tax data summary:'',
                      ''    - Year: '' @ str_int year,
                      ''    - Federal brackets: '' @ str_nat (length (tax_federal tax_data)),
                      ''    - Provincial brackets: '' @ str_nat (length (tax_provincial tax_data)),
                      [],
                      ''The calculator will automatically load this file when opened.'',
                      []],
                  run_written = Some (output_file, encode repr 0 (tax_data_json tax_data)),
                  run_exit_status = 0\<rparr>))"

section \<open>Notions used to state the properties\<close>

text \<open>
  The class that get_provincial_brackets calls for a province code: the class name from
  \<open>PROVINCE_TO_CLASS\<close>, looked up in \<open>tax_rate_classes\<close>.
\<close>

abbreviation province_class :: "rates_module \<Rightarrow> string \<Rightarrow> tax_rate_class" where
  "province_class r code \<equiv>
     the (map_of (tax_rate_classes_of r) (the (map_of PROVINCE_TO_CLASS code)))"



text \<open>A provider for the examples: the federal brackets of the specification's example,
  and one open bracket for every province.\<close>

definition sample_class :: "rat \<Rightarrow> tax_rate_class" where
  "sample_class pct = Inr \<lparr>obj_brackets = [(pct, PosInf)]\<rparr>"

definition sample_rates :: rates_module where
  "sample_rates =
     \<lparr>FederalIncomeTaxRate = Inr \<lparr>obj_brackets = [(15, Fin 57375), (41 / 2, PosInf)]\<rparr>,
      AlbertaIncomeTaxRate = sample_class 10,
      BritishColumbiaIncomeTaxRate = sample_class 5,
      ManitobaIncomeTaxRate = sample_class 10,
      NewBrunswickIncomeTaxRate = sample_class 9,
      NewfoundlandIncomeTaxRate = sample_class 8,
      NovaScotiaIncomeTaxRate = sample_class 8,
      NorthwestTerritoriesIncomeTaxRate = sample_class 5,
      NunavutIncomeTaxRate = sample_class 4,
      OntarioIncomeTaxRate = sample_class 5,
      PEIIncomeTaxRate = sample_class 9,
      QuebecIncomeTaxRate = sample_class 14,
      SaskatchewanIncomeTaxRate = sample_class 10,
      YukonIncomeTaxRate = sample_class 6\<rparr>"

section \<open>Properties of format_brackets\<close>

lemma format_loop_length:
  "length (format_loop bs i rest acc) = length acc + length rest"
  by (induction rest arbitrary: i acc) (auto simp: Let_def)

lemma format_loop_nth_acc:
  "k < length acc \<Longrightarrow> format_loop bs i rest acc ! k = acc ! k"
  by (induction rest arbitrary: i acc) (auto simp: Let_def nth_append)

text \<open>The bracket that the loop appends for the \<open>k\<close>-th remaining tuple.\<close>

lemma format_loop_nth:
  "k < length rest \<Longrightarrow>
   format_loop bs i rest acc ! (length acc + k) =
     \<lparr>bracket_min = (if i + k = 0 then Fin 0 else snd (bs ! (i + k - 1))),
      bracket_max = (if snd (rest ! k) = PosInf then Str ''Infinity'' else Num (snd (rest ! k))),
      bracket_rate = fst (rest ! k) / 100\<rparr>"
proof (induction rest arbitrary: i acc k)
  case Nil
  then show ?case by simp
next
  case (Cons p rest)
  obtain rate_pct max_val where p: "p = (rate_pct, max_val)" by (cases p)
  show ?case
  proof (cases k)
    case 0
    then show ?thesis
      by (simp add: p Let_def format_loop_nth_acc)
  next
    case (Suc j)
    with Cons.prems have j: "j < length rest" by simp
    let ?acc = "acc @ [\<lparr>bracket_min = (if i = 0 then Fin 0 else snd (bs ! (i - 1))),
      bracket_max = (if max_val = PosInf then Str ''Infinity'' else Num max_val),
      bracket_rate = rate_pct / 100\<rparr>]"
    have "format_loop bs (Suc i) rest ?acc ! (length ?acc + j) =
       \<lparr>bracket_min = (if Suc i + j = 0 then Fin 0 else snd (bs ! (Suc i + j - 1))),
      bracket_max = (if snd (rest ! j) = PosInf then Str ''Infinity'' else Num (snd (rest ! j))),
      bracket_rate = fst (rest ! j) / 100\<rparr>"
      by (rule Cons.IH [OF j])
    then show ?thesis
      by (simp add: p Suc Let_def)
  qed
qed

lemma format_brackets_length:
  "length (format_brackets obj) = length (obj_brackets obj)"
  by (simp add: format_brackets_def Let_def format_loop_length)

lemma format_brackets_nth:
  assumes "i < length (obj_brackets obj)"
  shows "format_brackets obj ! i =
     \<lparr>bracket_min = (if i = 0 then Fin 0 else snd (obj_brackets obj ! (i - 1))),
      bracket_max = (if snd (obj_brackets obj ! i) = PosInf then Str ''Infinity''
                     else Num (snd (obj_brackets obj ! i))),
      bracket_rate = fst (obj_brackets obj ! i) / 100\<rparr>"
  using format_loop_nth [OF assms, of "obj_brackets obj" 0 "[]"]
  by (simp add: format_brackets_def Let_def)

lemma number_less_not_PosInf: "number_less a b \<Longrightarrow> a \<noteq> PosInf"
  by (cases a) auto

text \<open>The example of the specification: federal brackets (15, 57375), (20.5, inf).\<close>

lemma format_brackets_example:
  "format_brackets \<lparr>obj_brackets = [(15, Fin 57375), (41 / 2, PosInf)]\<rparr> =
     [\<lparr>bracket_min = Fin 0, bracket_max = Num (Fin 57375), bracket_rate = 3 / 20\<rparr>,
      \<lparr>bracket_min = Fin 57375, bracket_max = Str ''Infinity'', bracket_rate = 41 / 200\<rparr>]"
  by (simp add: format_brackets_def Let_def)

text \<open>
  Claim C1. For an input of length n whose upper bounds ascend (each strictly below the
  next, infinity above every finite number), the output of format_brackets has length n,
  and for every index i > 0 the min of the output at i equals the max of the output at
  i - 1.
\<close>

theorem format_brackets_contiguous:
  assumes "sorted_wrt number_less (map snd (obj_brackets obj))"
  shows "length (format_brackets obj) = length (obj_brackets obj) \<and>
     (\<forall>i. 0 < i \<and> i < length (format_brackets obj) \<longrightarrow>
        Num (bracket_min (format_brackets obj ! i)) = bracket_max (format_brackets obj ! (i - 1)))"
proof (intro conjI allI impI)
  show "length (format_brackets obj) = length (obj_brackets obj)"
    by (rule format_brackets_length)
next
  fix i assume "0 < i \<and> i < length (format_brackets obj)"
  then have i: "0 < i" "i < length (obj_brackets obj)"
    by (simp_all add: format_brackets_length)
  then have "number_less (map snd (obj_brackets obj) ! (i - 1)) (map snd (obj_brackets obj) ! i)"
    using assms by (auto simp: sorted_wrt_iff_nth_less)
  then have "snd (obj_brackets obj ! (i - 1)) \<noteq> PosInf"
    using i number_less_not_PosInf by fastforce
  with i show "Num (bracket_min (format_brackets obj ! i)) = bracket_max (format_brackets obj ! (i - 1))"
    by (simp add: format_brackets_nth)
qed

theorem format_brackets_contiguous_witness:
  "sorted_wrt number_less (map snd (obj_brackets \<lparr>obj_brackets = [(15, Fin 57375), (41 / 2, PosInf)]\<rparr>)) \<and>
   length (format_brackets \<lparr>obj_brackets = [(15, Fin 57375), (41 / 2, PosInf)]\<rparr>) = 2 \<and>
   Num (bracket_min (format_brackets \<lparr>obj_brackets = [(15, Fin 57375), (41 / 2, PosInf)]\<rparr> ! 1)) =
     bracket_max (format_brackets \<lparr>obj_brackets = [(15, Fin 57375), (41 / 2, PosInf)]\<rparr> ! 0)"
  using format_brackets_contiguous [of "\<lparr>obj_brackets = [(15, Fin 57375), (41 / 2, PosInf)]\<rparr>"]
  by simp

text \<open>
  The hypothesis of C1 is needed where an upper bound that is not the last one is
  infinite: the min that follows it is the float itself, the max is the string.
\<close>

lemma format_brackets_repeated_infinity:
  "format_brackets \<lparr>obj_brackets = [(15, PosInf), (41 / 2, PosInf)]\<rparr> =
     [\<lparr>bracket_min = Fin 0, bracket_max = Str ''Infinity'', bracket_rate = 3 / 20\<rparr>,
      \<lparr>bracket_min = PosInf, bracket_max = Str ''Infinity'', bracket_rate = 41 / 200\<rparr>]"
  by (simp add: format_brackets_def Let_def)



text \<open>
  Claim C5. Where the upper bound of an input pair is the infinity sentinel, the max of
  the output bracket is the string "Infinity" and no number; where it is finite, the max
  is that upper bound unchanged.
\<close>

theorem format_brackets_max:
  "\<forall>i < length (obj_brackets obj).
     (snd (obj_brackets obj ! i) = PosInf \<longrightarrow>
        bracket_max (format_brackets obj ! i) = Str ''Infinity'' \<and>
        (\<forall>n. bracket_max (format_brackets obj ! i) \<noteq> Num n)) \<and>
     (\<forall>x. snd (obj_brackets obj ! i) = Fin x \<longrightarrow>
        bracket_max (format_brackets obj ! i) = Num (Fin x))"
  by (simp add: format_brackets_nth)

theorem format_brackets_max_witness:
  "bracket_max (format_brackets \<lparr>obj_brackets = [(15, Fin 57375), (41 / 2, PosInf)]\<rparr> ! 1) = Str ''Infinity'' \<and>
   bracket_max (format_brackets \<lparr>obj_brackets = [(15, Fin 57375), (41 / 2, PosInf)]\<rparr> ! 0) = Num (Fin 57375)"
  using format_brackets_max [of "\<lparr>obj_brackets = [(15, Fin 57375), (41 / 2, PosInf)]\<rparr>"]
  by (simp add: All_less_Suc2 numeral_2_eq_2)

text \<open>
  Claim C6. When the output of format_brackets is not empty, its first bracket has
  min 0.
\<close>

theorem format_brackets_first_min:
  "format_brackets obj \<noteq> [] \<Longrightarrow> bracket_min (format_brackets obj ! 0) = Fin 0"
proof -
  assume "format_brackets obj \<noteq> []"
  then have "0 < length (format_brackets obj)"
    by simp
  then have "0 < length (obj_brackets obj)"
    by (simp only: format_brackets_length)
  then show ?thesis
    by (simp add: format_brackets_nth)
qed

theorem format_brackets_first_min_witness:
  "format_brackets \<lparr>obj_brackets = [(10, PosInf)]\<rparr> \<noteq> [] \<and>
   bracket_min (format_brackets \<lparr>obj_brackets = [(10, PosInf)]\<rparr> ! 0) = Fin 0"
proof -
  have ne: "format_brackets \<lparr>obj_brackets = [(10, PosInf)]\<rparr> \<noteq> []"
    by (simp add: format_brackets_def Let_def)
  show ?thesis
    using ne format_brackets_first_min [OF ne] by simp
qed

text \<open>
  Claim C9. For a rate object with no brackets format_brackets returns the empty list;
  the function has no error outcome, so the fetch of such a jurisdiction prints no
  error and returns the empty list, not None.
\<close>

theorem format_brackets_empty:
  "format_brackets (obj\<lparr>obj_brackets := []\<rparr>) = [] \<and>
   get_federal_brackets [(''FederalIncomeTaxRate'', Inr (obj\<lparr>obj_brackets := []\<rparr>))] =
     ([], Some [])"
  by (simp add: format_brackets_def get_federal_brackets_def Let_def)

section \<open>Properties of the run\<close>

lemma province_codes:
  "map fst PROVINCE_NAMES =
     [''AB'', ''BC'', ''MB'', ''NB'', ''NL'', ''NS'', ''NT'', ''NU'', ''ON'', ''PE'', ''QC'', ''SK'', ''YT'']"
  by (simp add: PROVINCE_NAMES_def)

lemma tax_rate_classes_keys:
  "map fst (tax_rate_classes_of r) =
     [''FederalIncomeTaxRate'', ''AlbertaIncomeTaxRate'', ''BritishColumbiaIncomeTaxRate'',
      ''ManitobaIncomeTaxRate'', ''NewBrunswickIncomeTaxRate'', ''NewfoundlandIncomeTaxRate'',
      ''NovaScotiaIncomeTaxRate'', ''NorthwestTerritoriesIncomeTaxRate'', ''NunavutIncomeTaxRate'',
      ''OntarioIncomeTaxRate'', ''PEIIncomeTaxRate'', ''QuebecIncomeTaxRate'',
      ''SaskatchewanIncomeTaxRate'', ''YukonIncomeTaxRate'']"
  by (simp add: tax_rate_classes_of_def)

lemma province_class_lookup:
  "\<forall>code \<in> set (map fst PROVINCE_NAMES).
     \<exists>cn. map_of PROVINCE_TO_CLASS code = Some cn \<and> cn \<noteq> [] \<and>
          cn \<in> set (map fst (tax_rate_classes_of r))"
  by (simp add: province_codes PROVINCE_TO_CLASS_def tax_rate_classes_keys)

text \<open>For a listed province the guard of get_provincial_brackets is passed.\<close>

lemma get_provincial_brackets_listed:
  assumes "code \<in> set (map fst PROVINCE_NAMES)"
  shows "get_provincial_brackets (tax_rate_classes_of r) code =
     (case province_class r code of
        Inr prov_obj \<Rightarrow>
          ([], Some \<lparr>province_name =
                       (case map_of PROVINCE_NAMES code of Some n \<Rightarrow> n | None \<Rightarrow> code),
                     province_brackets = format_brackets prov_obj\<rparr>)
      | Inl e \<Rightarrow> ([''Error fetching brackets for '' @ code @ '': '' @ str_exn e], None))"
proof -
  from province_class_lookup assms obtain cn where
    "map_of PROVINCE_TO_CLASS code = Some cn" "cn \<noteq> []"
    "cn \<in> set (map fst (tax_rate_classes_of r))"
    by blast
  then show ?thesis
    by (simp add: get_provincial_brackets_def Let_def)
qed

lemma get_federal_brackets_module:
  "get_federal_brackets (tax_rate_classes_of r) =
     (case FederalIncomeTaxRate r of
        Inr fed \<Rightarrow> ([], Some (format_brackets fed))
      | Inl e \<Rightarrow> ([''Error fetching federal brackets: '' @ str_exn e], None))"
  by (simp add: get_federal_brackets_def tax_rate_classes_of_def)

text \<open>The keys of \<open>provincial\<close> after the loop: the codes whose fetch gave a value, in order.\<close>

lemma provincial_loop_keys:
  assumes "distinct ks" "set ks \<inter> set (map fst provincial) = {}"
  shows "map fst (snd (provincial_loop tcs ks (out, provincial))) =
     map fst provincial @ filter (\<lambda>c. snd (get_provincial_brackets tcs c) \<noteq> None) ks"
  using assms
proof (induction ks arbitrary: out provincial)
  case Nil
  then show ?case by simp
next
  case (Cons k ks)
  obtain out2 b where g: "get_provincial_brackets tcs k = (out2, b)"
    by (cases "get_provincial_brackets tcs k")
  show ?case
  proof (cases b)
    case None
    with Cons g show ?thesis by (simp add: Let_def)
  next
    case (Some p)
    from Cons.prems have k: "k \<notin> set (map fst provincial)" by auto
    then have keys: "map fst (AList.update k p provincial) = map fst provincial @ [k]"
      by (simp add: update_keys)
    from Cons.prems have "distinct ks" "set ks \<inter> set (map fst (AList.update k p provincial)) = {}"
      by (auto simp: keys)
    from Cons.IH [OF this] Some g keys show ?thesis
      by (simp add: Let_def)
  qed
qed

lemma generate_tax_data_federal_ok:
  assumes "FederalIncomeTaxRate r = Inr fed"
  shows "generate_tax_data (Some r) =
     (fst (provincial_loop (tax_rate_classes_of r) (map fst PROVINCE_NAMES)
             ([''Generating tax brackets for year: '' @ str_int 2025,
               ''Fetching federal brackets...''], [])),
      Inr \<lparr>tax_year = 2025, tax_federal = format_brackets fed,
           tax_provincial =
             snd (provincial_loop (tax_rate_classes_of r) (map fst PROVINCE_NAMES)
                    ([''Generating tax brackets for year: '' @ str_int 2025,
                      ''Fetching federal brackets...''], []))\<rparr>)"
  using assms
  by (simp add: generate_tax_data_def get_federal_brackets_module Let_def split: prod.splits)

lemma generate_tax_data_federal_fails:
  assumes "FederalIncomeTaxRate r = Inl e"
  shows "snd (generate_tax_data (Some r)) = Inl 1"
  using assms
  by (simp add: generate_tax_data_def get_federal_brackets_module Let_def)

lemma generate_tax_data_year:
  "generate_tax_data imported = (out, Inr doc) \<Longrightarrow> tax_year doc = 2025"
  by (auto simp: generate_tax_data_def Let_def split: option.splits prod.splits)

lemma main_exit:
  "snd (generate_tax_data imported) = Inl code \<Longrightarrow>
   run_written (main repr imported) = None \<and> run_exit_status (main repr imported) = code"
  by (cases "generate_tax_data imported") (simp add: main_def Let_def)

lemma main_document:
  "snd (generate_tax_data imported) = Inr doc \<Longrightarrow>
   run_written (main repr imported) =
     Some (''tax_brackets_'' @ str_int (tax_year doc) @ ''.json'', encode repr 0 (tax_data_json doc)) \<and>
   run_exit_status (main repr imported) = 0"
  by (cases "generate_tax_data imported") (simp add: main_def Let_def)

lemma str_int_2025: "str_int 2025 = ''2025''"
  by (simp add: str_int_def str_nat.simps digit_char_def)

text \<open>
  Claim C10. For every province code of the 13-entry table PROVINCE_NAMES,
  PROVINCE_TO_CLASS gives a class name that is a key of tax_rate_classes; so
  get_provincial_brackets does not print "No tax rate class found", and it returns None
  only when the call of the class raised.
\<close>

theorem province_class_always_found:
  "length PROVINCE_NAMES = 13 \<and>
   (\<forall>code \<in> set (map fst PROVINCE_NAMES).
      (\<exists>cn. map_of PROVINCE_TO_CLASS code = Some cn \<and> cn \<noteq> [] \<and>
            cn \<in> set (map fst (tax_rate_classes_of r))) \<and>
      fst (get_provincial_brackets (tax_rate_classes_of r) code) \<noteq>
        [''No tax rate class found for '' @ code] \<and>
      (snd (get_provincial_brackets (tax_rate_classes_of r) code) = None \<longrightarrow>
         (\<exists>e. province_class r code = Inl e)))"
proof (intro conjI ballI)
  show "length PROVINCE_NAMES = 13"
    by (simp add: PROVINCE_NAMES_def)
next
  fix code assume "code \<in> set (map fst PROVINCE_NAMES)"
  then show "\<exists>cn. map_of PROVINCE_TO_CLASS code = Some cn \<and> cn \<noteq> [] \<and>
            cn \<in> set (map fst (tax_rate_classes_of r))"
    using province_class_lookup by blast
next
  fix code assume "code \<in> set (map fst PROVINCE_NAMES)"
  then show "fst (get_provincial_brackets (tax_rate_classes_of r) code) \<noteq>
        [''No tax rate class found for '' @ code]"
    by (simp add: get_provincial_brackets_listed split: sum.splits)
next
  fix code assume "code \<in> set (map fst PROVINCE_NAMES)"
  then show "snd (get_provincial_brackets (tax_rate_classes_of r) code) = None \<longrightarrow>
         (\<exists>e. province_class r code = Inl e)"
    by (simp add: get_provincial_brackets_listed split: sum.splits)
qed

theorem province_class_always_found_witness:
  "''QC'' \<in> set (map fst PROVINCE_NAMES) \<and>
   map_of PROVINCE_TO_CLASS ''QC'' = Some ''QuebecIncomeTaxRate'' \<and>
   ''QuebecIncomeTaxRate'' \<in> set (map fst (tax_rate_classes_of sample_rates)) \<and>
   get_provincial_brackets
     (tax_rate_classes_of (sample_rates\<lparr>QuebecIncomeTaxRate := Inl (Exception ''unavailable'')\<rparr>)) ''QC'' =
     ([''Error fetching brackets for QC: unavailable''], None) \<and>
   (\<exists>e. province_class (sample_rates\<lparr>QuebecIncomeTaxRate := Inl (Exception ''unavailable'')\<rparr>) ''QC'' = Inl e)"
proof -
  have mem: "''QC'' \<in> set (map fst PROVINCE_NAMES)"
    by (simp add: province_codes)
  have cls: "map_of PROVINCE_TO_CLASS ''QC'' = Some ''QuebecIncomeTaxRate''"
    by (simp add: PROVINCE_TO_CLASS_def)
  have res: "get_provincial_brackets
     (tax_rate_classes_of (sample_rates\<lparr>QuebecIncomeTaxRate := Inl (Exception ''unavailable'')\<rparr>)) ''QC'' =
     ([''Error fetching brackets for QC: unavailable''], None)"
    by (simp add: get_provincial_brackets_def Let_def cls tax_rate_classes_of_def)
  from province_class_always_found
    [of "sample_rates\<lparr>QuebecIncomeTaxRate := Inl (Exception ''unavailable'')\<rparr>",
     THEN conjunct2, THEN bspec, OF mem] res
  have "\<exists>e. province_class (sample_rates\<lparr>QuebecIncomeTaxRate := Inl (Exception ''unavailable'')\<rparr>) ''QC'' = Inl e"
    by simp
  moreover from province_class_always_found [of sample_rates, THEN conjunct2, THEN bspec, OF mem] cls
  have "''QuebecIncomeTaxRate'' \<in> set (map fst (tax_rate_classes_of sample_rates))"
    by simp
  ultimately show ?thesis
    using mem cls res by simp
qed

text \<open>
  Claim C2. If the call of the federal class raises, no file is written and the exit
  status is not 0. A file is written only when generate_tax_data has returned the whole
  document, and its content is the text of that document.
\<close>

theorem federal_failure_is_fatal:
  "(FederalIncomeTaxRate r = Inl e \<longrightarrow>
      run_written (main repr (Some r)) = None \<and> run_exit_status (main repr (Some r)) \<noteq> 0) \<and>
   (run_written (main repr imported) \<noteq> None \<longrightarrow>
      (\<exists>out doc fname. generate_tax_data imported = (out, Inr doc) \<and>
         run_written (main repr imported) = Some (fname, encode repr 0 (tax_data_json doc))))"
proof (intro conjI impI)
  assume "FederalIncomeTaxRate r = Inl e"
  then have "snd (generate_tax_data (Some r)) = Inl 1"
    by (rule generate_tax_data_federal_fails)
  from main_exit [OF this]
  show "run_written (main repr (Some r)) = None" "run_exit_status (main repr (Some r)) \<noteq> 0"
    by simp_all
next
  assume w: "run_written (main repr imported) \<noteq> None"
  obtain out res where g: "generate_tax_data imported = (out, res)"
    by (cases "generate_tax_data imported")
  show "\<exists>out doc fname. generate_tax_data imported = (out, Inr doc) \<and>
         run_written (main repr imported) = Some (fname, encode repr 0 (tax_data_json doc))"
  proof (cases res)
    case (Inl code)
    with g main_exit [of imported code repr] w show ?thesis by simp
  next
    case (Inr doc)
    with g main_document [of imported doc repr] show ?thesis by simp
  qed
qed

theorem federal_failure_is_fatal_witness:
  "FederalIncomeTaxRate (sample_rates\<lparr>FederalIncomeTaxRate := Inl (Exception ''unavailable'')\<rparr>) =
     Inl (Exception ''unavailable'') \<and>
   run_written (main (\<lambda>q. ''0'')
     (Some (sample_rates\<lparr>FederalIncomeTaxRate := Inl (Exception ''unavailable'')\<rparr>))) = None \<and>
   run_exit_status (main (\<lambda>q. ''0'')
     (Some (sample_rates\<lparr>FederalIncomeTaxRate := Inl (Exception ''unavailable'')\<rparr>))) \<noteq> 0 \<and>
   run_written (main (\<lambda>q. ''0'') (Some sample_rates)) \<noteq> None \<and>
   (\<exists>out doc. generate_tax_data (Some sample_rates) = (out, Inr doc))"
proof -
  have fails: "FederalIncomeTaxRate (sample_rates\<lparr>FederalIncomeTaxRate := Inl (Exception ''unavailable'')\<rparr>) =
     Inl (Exception ''unavailable'')"
    by simp
  have "FederalIncomeTaxRate sample_rates = Inr \<lparr>obj_brackets = [(15, Fin 57375), (41 / 2, PosInf)]\<rparr>"
    by (simp add: sample_rates_def)
  then have "\<exists>doc. snd (generate_tax_data (Some sample_rates)) = Inr doc"
    by (simp add: generate_tax_data_federal_ok)
  then obtain doc where "snd (generate_tax_data (Some sample_rates)) = Inr doc" ..
  then have written: "run_written (main (\<lambda>q. ''0'') (Some sample_rates)) \<noteq> None"
    by (simp add: main_document)
  from federal_failure_is_fatal
    [of "sample_rates\<lparr>FederalIncomeTaxRate := Inl (Exception ''unavailable'')\<rparr>"
        "Exception ''unavailable''" "\<lambda>q. ''0''" "Some sample_rates"] fails written
  show ?thesis
    by blast
qed

text \<open>
  Claim C7. The year of the assembled document is the constant 2025 whatever the provider
  returns (the run has no clock among its inputs), and the file written is named
  tax_brackets_2025.json, which is tax_brackets_<year>.json for the year of the document.
\<close>

theorem year_and_file_name:
  "(\<forall>out doc. generate_tax_data imported = (out, Inr doc) \<longrightarrow> tax_year doc = 2025) \<and>
   (\<forall>fname content. run_written (main repr imported) = Some (fname, content) \<longrightarrow>
      fname = ''tax_brackets_2025.json'' \<and>
      (\<exists>out doc. generate_tax_data imported = (out, Inr doc) \<and>
         fname = ''tax_brackets_'' @ str_int (tax_year doc) @ ''.json''))"
proof (intro conjI allI impI)
  fix out doc assume "generate_tax_data imported = (out, Inr doc)"
  then show "tax_year doc = 2025" by (rule generate_tax_data_year)
next
  fix fname content assume w: "run_written (main repr imported) = Some (fname, content)"
  obtain out res where g: "generate_tax_data imported = (out, res)"
    by (cases "generate_tax_data imported")
  have "\<exists>doc. res = Inr doc \<and> fname = ''tax_brackets_'' @ str_int (tax_year doc) @ ''.json''"
  proof (cases res)
    case (Inl code)
    with g main_exit [of imported code repr] w show ?thesis by simp
  next
    case (Inr doc)
    with g main_document [of imported doc repr] w show ?thesis by simp
  qed
  then obtain doc where doc: "res = Inr doc"
    "fname = ''tax_brackets_'' @ str_int (tax_year doc) @ ''.json''" by blast
  from g doc have y: "tax_year doc = 2025"
    by (simp add: generate_tax_data_year)
  from doc y show "fname = ''tax_brackets_2025.json''"
    by (simp add: str_int_2025)
  from g doc show "\<exists>out doc. generate_tax_data imported = (out, Inr doc) \<and>
         fname = ''tax_brackets_'' @ str_int (tax_year doc) @ ''.json''"
    by blast
qed

theorem year_and_file_name_witness:
  "\<exists>out doc content. generate_tax_data (Some sample_rates) = (out, Inr doc) \<and> tax_year doc = 2025 \<and>
     run_written (main (\<lambda>q. ''0'') (Some sample_rates)) = Some (''tax_brackets_2025.json'', content)"
proof -
  have "FederalIncomeTaxRate sample_rates = Inr \<lparr>obj_brackets = [(15, Fin 57375), (41 / 2, PosInf)]\<rparr>"
    by (simp add: sample_rates_def)
  then have "\<exists>out doc. generate_tax_data (Some sample_rates) = (out, Inr doc)"
    by (simp add: generate_tax_data_federal_ok)
  then obtain out doc where g: "generate_tax_data (Some sample_rates) = (out, Inr doc)"
    by blast
  then have "snd (generate_tax_data (Some sample_rates)) = Inr doc" by simp
  from main_document [OF this, of "\<lambda>q. ''0''"] obtain fname content where
    w: "run_written (main (\<lambda>q. ''0'') (Some sample_rates)) = Some (fname, content)"
    by blast
  from year_and_file_name [of "Some sample_rates" "\<lambda>q. ''0''"] g w
  have "tax_year doc = 2025" "fname = ''tax_brackets_2025.json''"
    by blast+
  with g w show ?thesis by blast
qed

lemma length_filter_neq:
  "distinct xs \<Longrightarrow> q \<in> set xs \<Longrightarrow> length (filter (\<lambda>c. c \<noteq> q) xs) = length xs - 1"
proof (induction xs)
  case Nil
  then show ?case by simp
next
  case (Cons x xs)
  show ?case
  proof (cases "x = q")
    case True
    with Cons.prems have "q \<notin> set xs" by simp
    then have "filter (\<lambda>c. c \<noteq> q) xs = xs"
      by (auto simp: filter_id_conv)
    with True show ?thesis by simp
  next
    case False
    with Cons.prems have "q \<in> set xs" "distinct xs" by simp_all
    with Cons.IH have "length (filter (\<lambda>c. c \<noteq> q) xs) = length xs - 1"
      by simp
    moreover from \<open>q \<in> set xs\<close> have "0 < length xs"
      by (cases xs) simp_all
    ultimately show ?thesis
      using False by simp
  qed
qed

text \<open>
  Claim C3. If the class of exactly one province q raises while the federal class and the
  classes of all other provinces return, then generate_tax_data returns a document whose
  provincial map omits q and has the 12 other codes, in the order of the table, and the
  exit status of the run is 0.
\<close>

theorem one_province_failure_is_skipped:
  assumes "q \<in> set (map fst PROVINCE_NAMES)"
    and "FederalIncomeTaxRate r = Inr fed"
    and "province_class r q = Inl e"
    and "\<forall>c \<in> set (map fst PROVINCE_NAMES). c \<noteq> q \<longrightarrow> (\<exists>obj. province_class r c = Inr obj)"
  shows "\<exists>out doc. generate_tax_data (Some r) = (out, Inr doc) \<and>
     map fst (tax_provincial doc) = filter (\<lambda>c. c \<noteq> q) (map fst PROVINCE_NAMES) \<and>
     q \<notin> set (map fst (tax_provincial doc)) \<and>
     set (map fst (tax_provincial doc)) = set (map fst PROVINCE_NAMES) - {q} \<and>
     length (tax_provincial doc) = 12 \<and>
     run_exit_status (main repr (Some r)) = 0"
proof -
  let ?codes = "map fst PROVINCE_NAMES"
  let ?tcs = "tax_rate_classes_of r"
  define st where "st = provincial_loop ?tcs ?codes
     ([''Generating tax brackets for year: '' @ str_int 2025, ''Fetching federal brackets...''], [])"
  define doc where "doc = \<lparr>tax_year = 2025, tax_federal = format_brackets fed,
                             tax_provincial = snd st\<rparr>"
  have dist: "distinct ?codes"
    by (simp add: province_codes)
  have g: "generate_tax_data (Some r) = (fst st, Inr doc)"
    unfolding st_def doc_def using assms(2) by (rule generate_tax_data_federal_ok)
  have fetched: "(snd (get_provincial_brackets ?tcs c) \<noteq> None) = (c \<noteq> q)" if "c \<in> set ?codes" for c
  proof (cases "c = q")
    case True
    with that assms(3) show ?thesis
      by (simp add: get_provincial_brackets_listed)
  next
    case False
    with that assms(4) obtain obj where "province_class r c = Inr obj" by blast
    with that False show ?thesis
      by (simp add: get_provincial_brackets_listed)
  qed
  have "map fst (snd st) = filter (\<lambda>c. snd (get_provincial_brackets ?tcs c) \<noteq> None) ?codes"
    unfolding st_def using provincial_loop_keys [OF dist, of "[]" ?tcs] by simp
  also have "\<dots> = filter (\<lambda>c. c \<noteq> q) ?codes"
    using fetched by (intro filter_cong) auto
  finally have keys: "map fst (tax_provincial doc) = filter (\<lambda>c. c \<noteq> q) ?codes"
    by (simp add: doc_def)
  have "length (tax_provincial doc) = length (map fst (tax_provincial doc))"
    by (simp only: length_map)
  also have "\<dots> = length (filter (\<lambda>c. c \<noteq> q) ?codes)"
    by (simp only: keys)
  also have "\<dots> = length ?codes - 1"
    using dist assms(1) by (rule length_filter_neq)
  also have "length ?codes = 13"
    by (simp add: PROVINCE_NAMES_def)
  finally have len: "length (tax_provincial doc) = 12"
    by simp
  have "snd (generate_tax_data (Some r)) = Inr doc"
    using g by simp
  then have exit0: "run_exit_status (main repr (Some r)) = 0"
    by (simp add: main_document)
  have omit: "q \<notin> set (map fst (tax_provincial doc))"
    unfolding keys by simp
  have rest: "set (map fst (tax_provincial doc)) = set ?codes - {q}"
    unfolding keys by auto
  show ?thesis
    using g keys omit rest len exit0 by (intro exI [of _ "fst st"] exI [of _ doc] conjI)
qed

theorem one_province_failure_is_skipped_witness:
  "''QC'' \<in> set (map fst PROVINCE_NAMES) \<and>
   province_class (sample_rates\<lparr>QuebecIncomeTaxRate := Inl (Exception ''unavailable'')\<rparr>) ''QC'' =
     Inl (Exception ''unavailable'') \<and>
   (\<exists>out doc.
      generate_tax_data (Some (sample_rates\<lparr>QuebecIncomeTaxRate := Inl (Exception ''unavailable'')\<rparr>)) =
        (out, Inr doc) \<and>
      map fst (tax_provincial doc) =
        [''AB'', ''BC'', ''MB'', ''NB'', ''NL'', ''NS'', ''NT'', ''NU'', ''ON'', ''PE'', ''SK'', ''YT'']) \<and>
   run_exit_status
     (main (\<lambda>q. ''0'') (Some (sample_rates\<lparr>QuebecIncomeTaxRate := Inl (Exception ''unavailable'')\<rparr>))) = 0"
proof -
  let ?r = "sample_rates\<lparr>QuebecIncomeTaxRate := Inl (Exception ''unavailable'')\<rparr>"
  have h1: "''QC'' \<in> set (map fst PROVINCE_NAMES)"
    by (simp add: province_codes)
  have h2: "FederalIncomeTaxRate ?r = Inr \<lparr>obj_brackets = [(15, Fin 57375), (41 / 2, PosInf)]\<rparr>"
    by (simp add: sample_rates_def)
  have h3: "province_class ?r ''QC'' = Inl (Exception ''unavailable'')"
    by (simp add: PROVINCE_TO_CLASS_def tax_rate_classes_of_def)
  have h4: "\<forall>c \<in> set (map fst PROVINCE_NAMES). c \<noteq> ''QC'' \<longrightarrow> (\<exists>obj. province_class ?r c = Inr obj)"
    by (simp add: province_codes PROVINCE_TO_CLASS_def tax_rate_classes_of_def sample_rates_def
        sample_class_def)
  from one_province_failure_is_skipped [OF h1 h2 h3 h4, of "\<lambda>q. ''0''"]
  obtain out doc where
    "generate_tax_data (Some ?r) = (out, Inr doc)"
    "map fst (tax_provincial doc) = filter (\<lambda>c. c \<noteq> ''QC'') (map fst PROVINCE_NAMES)"
    "run_exit_status (main (\<lambda>q. ''0'') (Some ?r)) = 0"
    by blast
  moreover have "filter (\<lambda>c. c \<noteq> ''QC'') (map fst PROVINCE_NAMES) =
      [''AB'', ''BC'', ''MB'', ''NB'', ''NL'', ''NS'', ''NT'', ''NU'', ''ON'', ''PE'', ''SK'', ''YT'']"
    by (simp add: province_codes)
  ultimately show ?thesis
    using h1 h3 by simp
qed







lemma generate_tax_data_snd:
  "snd (generate_tax_data (Some r)) =
     (case snd (get_federal_brackets (tax_rate_classes_of r)) of
        None \<Rightarrow> Inl 1
      | Some fed \<Rightarrow>
          Inr \<lparr>tax_year = 2025, tax_federal = fed,
               tax_provincial =
                 snd (provincial_loop (tax_rate_classes_of r) (map fst PROVINCE_NAMES)
                        ([''Generating tax brackets for year: '' @ str_int 2025,
                          ''Fetching federal brackets...''] @
                         fst (get_federal_brackets (tax_rate_classes_of r)), []))\<rparr>)"
  by (simp add: generate_tax_data_def Let_def split: prod.splits option.splits)





text \<open>
  The order of the keys is fixed by the code: the provincial codes of a document are
  the fetched ones in the order of PROVINCE_NAMES, and the serialisation writes
  year, federal, provincial with two spaces of indentation per level.
\<close>

lemma provincial_keys_in_table_order:
  assumes "generate_tax_data (Some r) = (out, Inr doc)"
  shows "map fst (tax_provincial doc) =
     filter (\<lambda>c. snd (get_provincial_brackets (tax_rate_classes_of r) c) \<noteq> None)
       (map fst PROVINCE_NAMES)"
proof -
  have dist: "distinct (map fst PROVINCE_NAMES)"
    by (simp add: province_codes)
  from assms have "snd (generate_tax_data (Some r)) = Inr doc" by simp
  then have "\<exists>out1. tax_provincial doc =
      snd (provincial_loop (tax_rate_classes_of r) (map fst PROVINCE_NAMES) (out1, []))"
    unfolding generate_tax_data_snd by (auto split: option.splits)
  then obtain out1 where "tax_provincial doc =
      snd (provincial_loop (tax_rate_classes_of r) (map fst PROVINCE_NAMES) (out1, []))" ..
  then show ?thesis
    using provincial_loop_keys [OF dist, of "[]" "tax_rate_classes_of r" out1] by simp
qed

lemma encode_empty_document:
  "encode repr 0 (tax_data_json \<lparr>tax_year = 2025, tax_federal = [], tax_provincial = []\<rparr>) =
     ''{'' @ [CHR 0x0A] @
     ''  '' @ [CHR 0x22] @ ''year'' @ [CHR 0x22] @ '': 2025,'' @ [CHR 0x0A] @
     ''  '' @ [CHR 0x22] @ ''federal'' @ [CHR 0x22] @ '': [],'' @ [CHR 0x0A] @
     ''  '' @ [CHR 0x22] @ ''provincial'' @ [CHR 0x22] @ '': {}'' @ [CHR 0x0A] @
     ''}''"
  by (simp add: tax_data_json_def encode_string_def escape_char_def newline_indent_def
      str_int_2025 numeral_2_eq_2)

end
